theory Spec2Isabelle
  imports Complex_Main "HOL-Library.Char_ord" "HOL-Library.List_Lexorder"
begin

section \<open>Python values\<close>

text \<open>
  The records of the Public Legal Record System are what \<^verbatim>\<open>json.load\<close> returns, or what a
  caller of the Python functions passes in: \<^verbatim>\<open>Dict[str, Any]\<close>.

  \<^item> A \<^verbatim>\<open>str\<close> is modelled by the bytes of its UTF-8 form (a lone surrogate, which
    \<^verbatim>\<open>json.load\<close> accepts as an escape, by its three-byte generalised form
    \<open>0xED 0xA0..0xBF 0x80..0xBF\<close>). Equality, emptiness, \<^verbatim>\<open>endswith("Z")\<close>,
    \<^verbatim>\<open>"T" in ts\<close> and the lexicographic order of Python strings (by code point) are
    the same on this form (by byte).
  \<^item> A \<^verbatim>\<open>float\<close> is not-a-number, an infinity, or a finite value; a finite value carries the
    rational number it denotes and the text \<^verbatim>\<open>float.__repr__\<close> prints for it (CPython's
    shortest round-trip formatting is not re-implemented; \<^verbatim>\<open>-0.0\<close> is the value 0 printed
    \<^verbatim>\<open>-0.0\<close>).
  \<^item> A \<^verbatim>\<open>dict\<close> is the list of its items in insertion order; its keys are strings and
    pairwise distinct (\<open>wf_value\<close> below).
  \<^item> \<open>PObject\<close> is a value of any other type (a set, bytes, \<^verbatim>\<open>object()\<close>): one that
    \<^verbatim>\<open>json\<close> cannot encode, that is truthy, that equals no number or string, and that
    supports neither \<^verbatim>\<open>int()\<close>, ordering nor \<^verbatim>\<open>.get\<close>.
\<close>

datatype pyfloat = Finite rat string | PosInf | NegInf | NaN

datatype pyval =
    PNone
  | PBool bool
  | PInt int
  | PFloat pyfloat
  | PStr string
  | PList "pyval list"
  | PDict "(string \<times> pyval) list"
  | PObject

type_synonym pydict = "(string \<times> pyval) list"

type_synonym bytes = string

text \<open>The exceptions the modelled functions raise or let through.\<close>

datatype error =
    TypeError
  | AttributeError
  | KeyError
  | UnicodeEncodeError
  | OSError
  | UnsupportedHashAlgorithm string
  | RecordIdentityMismatch
  | HashIdentityMismatch

text \<open>\<^verbatim>\<open>d.get(k)\<close>: the value, or \<^verbatim>\<open>None\<close> for a missing key.\<close>

definition dict_get :: "pydict \<Rightarrow> string \<Rightarrow> pyval" where
  "dict_get d k = (case map_of d k of None \<Rightarrow> PNone | Some v \<Rightarrow> v)"

text \<open>\<^verbatim>\<open>d[k] = v\<close>: an existing key keeps its place, a new key goes last.\<close>

fun dict_set :: "pydict \<Rightarrow> string \<Rightarrow> pyval \<Rightarrow> pydict" where
  "dict_set [] k v = [(k, v)]"
| "dict_set ((k', v') # d) k v = (if k' = k then (k, v) # d else (k', v') # dict_set d k v)"

text \<open>Truthiness (\<^verbatim>\<open>not x\<close>, \<^verbatim>\<open>x and ...\<close>, \<^verbatim>\<open>x or None\<close>).\<close>

fun truthy :: "pyval \<Rightarrow> bool" where
  "truthy PNone = False"
| "truthy (PBool b) = b"
| "truthy (PInt i) = (i \<noteq> 0)"
| "truthy (PFloat (Finite r s)) = (r \<noteq> 0)"
| "truthy (PFloat f) = True"
| "truthy (PStr s) = (s \<noteq> [])"
| "truthy (PList xs) = (xs \<noteq> [])"
| "truthy (PDict d) = (d \<noteq> [])"
| "truthy PObject = True"

text \<open>\<^verbatim>\<open>isinstance(x, str)\<close>, \<^verbatim>\<open>isinstance(x, dict)\<close>, \<^verbatim>\<open>isinstance(x, list)\<close>.\<close>

fun is_str :: "pyval \<Rightarrow> bool" where
  "is_str (PStr s) = True"
| "is_str v = False"

fun is_dict :: "pyval \<Rightarrow> bool" where
  "is_dict (PDict d) = True"
| "is_dict v = False"

fun is_list :: "pyval \<Rightarrow> bool" where
  "is_list (PList xs) = True"
| "is_list v = False"

text \<open>The invariant of Python dictionaries: no key twice, at any depth.\<close>

fun wf_value :: "pyval \<Rightarrow> bool" where
  "wf_value (PList xs) = (\<forall>x \<in> set xs. wf_value x)"
| "wf_value (PDict d) = (distinct (map fst d) \<and> (\<forall>kv \<in> set d. wf_value (snd kv)))"
| "wf_value v = True"

section \<open>Canonical serialization and hashing (hash\_event.py, hash\_challenge.py)\<close>

subsection \<open>\<^verbatim>\<open>json.dumps(x, sort_keys=True, ensure_ascii=False, separators=(",", ":"))\<close>\<close>

definition digit_chars :: string where
  "digit_chars = ''0123456789abcdef''"

function nat_repr :: "nat \<Rightarrow> string" where
  "nat_repr n = (if n < 10 then [digit_chars ! n] else nat_repr (n div 10) @ [digit_chars ! (n mod 10)])"
  by pat_completeness auto
termination
  by (relation "measure id") auto

declare nat_repr.simps [simp del]

text \<open>\<^verbatim>\<open>int.__repr__\<close>.\<close>

definition int_repr :: "int \<Rightarrow> string" where
  "int_repr i = (if i < 0 then CHR ''-'' # nat_repr (nat (- i)) else nat_repr (nat i))"

text \<open>
  \<^verbatim>\<open>json.encoder.floatstr\<close> with the default \<^verbatim>\<open>allow_nan=True\<close> (the call site does not pass
  \<^verbatim>\<open>allow_nan=False\<close>): the three non-finite values are written as JavaScript tokens.
\<close>

fun floatstr :: "pyfloat \<Rightarrow> string" where
  "floatstr NaN = ''NaN''"
| "floatstr PosInf = ''Infinity''"
| "floatstr NegInf = ''-Infinity''"
| "floatstr (Finite r s) = s"

text \<open>
  \<^verbatim>\<open>json.encoder.encode_basestring\<close> (the \<^verbatim>\<open>ensure_ascii=False\<close> encoder): only the quote,
  the backslash and the control characters below 0x20 are escaped.
\<close>

definition escape_char :: "char \<Rightarrow> string" where
  "escape_char c =
     (let n = (of_char c :: nat) in
      if n = 0x22 then [CHR 0x5C, CHR 0x22]
      else if n = 0x5C then [CHR 0x5C, CHR 0x5C]
      else if n = 0x0A then [CHR 0x5C, CHR ''n'']
      else if n = 0x0D then [CHR 0x5C, CHR ''r'']
      else if n = 0x09 then [CHR 0x5C, CHR ''t'']
      else if n = 0x08 then [CHR 0x5C, CHR ''b'']
      else if n = 0x0C then [CHR 0x5C, CHR ''f'']
      else if n < 0x20 then
        [CHR 0x5C, CHR ''u'', CHR ''0'', CHR ''0'', digit_chars ! (n div 16), digit_chars ! (n mod 16)]
      else [c])"

definition encode_basestring :: "string \<Rightarrow> string" where
  "encode_basestring s = CHR 0x22 # concat (map escape_char s) @ [CHR 0x22]"

text \<open>\<^verbatim>\<open>sep.join(parts)\<close>.\<close>

fun join :: "string \<Rightarrow> string list \<Rightarrow> string" where
  "join sep [] = []"
| "join sep [x] = x"
| "join sep (x # y # ys) = x @ sep @ join sep (y # ys)"

text \<open>The parts of a container are encoded in order; the first exception ends the encoding.\<close>

fun collect :: "(error + 'a) list \<Rightarrow> error + 'a list" where
  "collect [] = Inr []"
| "collect (Inl e # rs) = Inl e"
| "collect (Inr x # rs) = (case collect rs of Inl e \<Rightarrow> Inl e | Inr xs \<Rightarrow> Inr (x # xs))"

text \<open>
  The encoder. With \<^verbatim>\<open>sort_keys=True\<close> a dictionary's items are written in the order of
  \<^verbatim>\<open>sorted(dct.items())\<close>, which for distinct string keys is the order of the keys.
  A value of an unsupported type raises \<^verbatim>\<open>TypeError\<close>.
\<close>

fun json_dumps :: "pyval \<Rightarrow> error + string" where
  "json_dumps PNone = Inr ''null''"
| "json_dumps (PBool b) = Inr (if b then ''true'' else ''false'')"
| "json_dumps (PInt i) = Inr (int_repr i)"
| "json_dumps (PFloat f) = Inr (floatstr f)"
| "json_dumps (PStr s) = Inr (encode_basestring s)"
| "json_dumps (PList xs) =
     (case collect (map json_dumps xs) of
        Inl e \<Rightarrow> Inl e
      | Inr parts \<Rightarrow> Inr (''['' @ join '','' parts @ '']''))"
| "json_dumps (PDict d) =
     (case collect (map (\<lambda>kv. case json_dumps (snd kv) of
                                 Inl e \<Rightarrow> Inl e
                               | Inr s \<Rightarrow> Inr (encode_basestring (fst kv) @ '':'' @ s))
                        (sort_key fst d)) of
        Inl e \<Rightarrow> Inl e
      | Inr parts \<Rightarrow> Inr (''{'' @ join '','' parts @ ''}''))"
| "json_dumps PObject = Inl TypeError"

subsection \<open>\<^verbatim>\<open>canonical_serialize\<close> and the hashing pipelines\<close>

text \<open>
  \<^verbatim>\<open>str.encode("utf-8")\<close>: the identity on the UTF-8 form, except that a lone surrogate
  (lead byte 0xED followed by a byte from 0xA0 on) raises \<^verbatim>\<open>UnicodeEncodeError\<close>.
\<close>

fun has_surrogate :: "string \<Rightarrow> bool" where
  "has_surrogate (a # b # cs) =
     (((of_char a :: nat) = 0xED \<and> (0xA0 :: nat) \<le> of_char b) \<or> has_surrogate (b # cs))"
| "has_surrogate cs = False"

definition encode_utf8 :: "string \<Rightarrow> error + bytes" where
  "encode_utf8 s = (if has_surrogate s then Inl UnicodeEncodeError else Inr s)"

text \<open>
  \<^verbatim>\<open>hash_event.canonical_serialize\<close> and \<^verbatim>\<open>hash_challenge.canonical_serialize\<close>, under the
  names verify\_bundle.py imports them by.
\<close>

definition event_serialize :: "pyval \<Rightarrow> error + bytes" where
  "event_serialize event_data =
     (case json_dumps event_data of
        Inl e \<Rightarrow> Inl e
      | Inr canonical_str \<Rightarrow> encode_utf8 canonical_str)"

definition challenge_serialize :: "pyval \<Rightarrow> error + bytes" where
  "challenge_serialize challenge_data =
     (case json_dumps challenge_data of
        Inl e \<Rightarrow> Inl e
      | Inr canonical_str \<Rightarrow> encode_utf8 canonical_str)"

text \<open>
  \<^verbatim>\<open>hashlib\<close> is not part of the repository: \<open>hashlib_new algorithm\<close> is \<open>None\<close> where
  \<^verbatim>\<open>hashlib.new(algorithm)\<close> raises \<^verbatim>\<open>ValueError\<close>, and otherwise the function from the
  bytes fed to \<^verbatim>\<open>update\<close> to what \<^verbatim>\<open>hexdigest()\<close> returns (or raises: the
  variable-length digests need a length argument).
\<close>

type_synonym hashlib = "string \<Rightarrow> (bytes \<Rightarrow> error + string) option"

definition hash_event :: "hashlib \<Rightarrow> pyval \<Rightarrow> string \<Rightarrow> error + string" where
  "hash_event hashlib_new event_data algorithm =
     (case event_serialize event_data of
        Inl e \<Rightarrow> Inl e
      | Inr data_bytes \<Rightarrow>
          (case hashlib_new algorithm of
             None \<Rightarrow> Inl (UnsupportedHashAlgorithm algorithm)
           | Some h \<Rightarrow> h data_bytes))"

definition hash_challenge :: "hashlib \<Rightarrow> pyval \<Rightarrow> string \<Rightarrow> error + string" where
  "hash_challenge hashlib_new challenge_data algorithm =
     (case challenge_serialize challenge_data of
        Inl e \<Rightarrow> Inl e
      | Inr data_bytes \<Rightarrow>
          (case hashlib_new algorithm of
             None \<Rightarrow> Inl (UnsupportedHashAlgorithm algorithm)
           | Some h \<Rightarrow> h data_bytes))"

text \<open>
  Two records are the same unordered key/value structure: the same value at each atom, lists
  equal element by element, dictionaries with the same keys and, at each key, the same
  structure. The type of a value is part of it: the integer 1, the float 1.0 and
  \<^verbatim>\<open>True\<close> are three values (Python's \<^verbatim>\<open>==\<close> identifies them; the encoder writes
  \<^verbatim>\<open>1\<close>, \<^verbatim>\<open>1.0\<close> and \<^verbatim>\<open>true\<close>).
\<close>

function (sequential) same_record :: "pyval \<Rightarrow> pyval \<Rightarrow> bool" where
  "same_record (PList xs) (PList ys) =
     (length xs = length ys \<and> (\<forall>xy \<in> set (zip xs ys). same_record (fst xy) (snd xy)))"
| "same_record (PDict a) (PDict b) =
     (set (map fst a) = set (map fst b) \<and>
      (\<forall>kv \<in> set a. case map_of b (fst kv) of
                        None \<Rightarrow> False
                      | Some v' \<Rightarrow> same_record (snd kv) v'))"
| "same_record x y = (x = y)"
  by pat_completeness auto
termination
proof (relation "measure (\<lambda>p. size (fst p))")
  show "wf (measure (\<lambda>p. size (fst p)))" by simp
next
  fix xs ys :: "pyval list" and xy :: "pyval \<times> pyval"
  assume "xy \<in> set (zip xs ys)"
  then have "fst xy \<in> set xs" by (metis set_zip_leftD prod.collapse)
  then have "size (fst xy) \<le> size_list size xs" by (simp add: size_list_estimation')
  then show "((fst xy, snd xy), (PList xs, PList ys)) \<in> measure (\<lambda>p. size (fst p))" by simp
next
  fix a b :: pydict and kv :: "string \<times> pyval" and v' :: pyval
  assume "kv \<in> set a"
  then have "size (snd kv) \<le> size_list (size_prod (\<lambda>x. 0) size) a"
    by (induction a) auto
  then show "((snd kv, v'), (PDict a, PDict b)) \<in> measure (\<lambda>p. size (fst p))"
    by simp
qed

text \<open>A record holds a value of a type the encoder has no case for.\<close>

fun unsupported :: "pyval \<Rightarrow> bool" where
  "unsupported PObject = True"
| "unsupported (PList xs) = (\<exists>x \<in> set xs. unsupported x)"
| "unsupported (PDict d) = (\<exists>kv \<in> set d. unsupported (snd kv))"
| "unsupported v = False"

section \<open>Sequence audit (verify\_index.py, verify\_ledger\_inntegrity.py)\<close>

text \<open>
  \<^verbatim>\<open>seq == expected\<close> for an integer \<open>expected\<close>: numbers compare by value
  (\<^verbatim>\<open>True\<close> is 1, a float equals the integer it denotes exactly), nothing else equals an
  integer.
\<close>

fun py_eq_int :: "pyval \<Rightarrow> int \<Rightarrow> bool" where
  "py_eq_int (PBool b) n = ((if b then 1 else 0) = n)"
| "py_eq_int (PInt i) n = (i = n)"
| "py_eq_int (PFloat (Finite r s)) n = (r = of_int n)"
| "py_eq_int v n = False"

text \<open>
  The findings are the error strings of the source, kept as the values their f-strings
  interpolate. verify\_index.py:
  \<^verbatim>\<open>"Index_Seq error: expected {expected}, found {seq} for Event_ID={entry.get('Event_ID')}"\<close>.
\<close>

datatype index_error = Index_Seq_error int pyval pyval

text \<open>
  verify\_index.py, the body of the loop of \<^verbatim>\<open>verify_index_sequence\<close> on the state
  \<open>(errors, expected)\<close>:
  \<^verbatim>\<open>expected = seq if isinstance(seq, int) else expected\<close> (a \<^verbatim>\<open>bool\<close> is an \<^verbatim>\<open>int\<close>),
  then \<^verbatim>\<open>expected += 1\<close>.
\<close>

definition index_seq_step :: "index_error list \<times> int \<Rightarrow> pydict \<Rightarrow> index_error list \<times> int" where
  "index_seq_step st entry =
     (let errors = fst st; expected = snd st;
          seq = dict_get entry ''Index_Seq'' in
      if \<not> py_eq_int seq expected then
        (errors @ [Index_Seq_error expected seq (dict_get entry ''Event_ID'')],
         (case seq of
            PInt i \<Rightarrow> i
          | PBool b \<Rightarrow> (if b then 1 else 0)
          | _ \<Rightarrow> expected) + 1)
      else (errors, expected + 1))"

text \<open>The state \<open>(errors, expected)\<close> when the loop, started with \<^verbatim>\<open>expected = 1\<close>, has walked the entries.\<close>

definition index_seq_loop :: "pydict list \<Rightarrow> index_error list \<times> int" where
  "index_seq_loop index_data = foldl index_seq_step ([], 1) index_data"

definition verify_index_sequence :: "pydict list \<Rightarrow> index_error list" where
  "verify_index_sequence index_data = fst (index_seq_loop index_data)"

text \<open>
  \<^verbatim>\<open>int(seq)\<close>, \<open>None\<close> where it raises (\<^verbatim>\<open>TypeError\<close>, \<^verbatim>\<open>ValueError\<close> or
  \<^verbatim>\<open>OverflowError\<close>, all caught by the caller's \<^verbatim>\<open>except Exception\<close>). A float is
  truncated towards zero. What \<^verbatim>\<open>int\<close> makes of a string (CPython's integer-literal parser)
  is the parameter \<open>int_of_str\<close>.
\<close>

fun py_int :: "(string \<Rightarrow> int option) \<Rightarrow> pyval \<Rightarrow> int option" where
  "py_int int_of_str (PBool b) = Some (if b then 1 else 0)"
| "py_int int_of_str (PInt i) = Some i"
| "py_int int_of_str (PFloat (Finite r s)) = Some (if r < 0 then - \<lfloor>- r\<rfloor> else \<lfloor>r\<rfloor>)"
| "py_int int_of_str (PStr s) = int_of_str s"
| "py_int int_of_str v = None"

text \<open>
  verify\_ledger\_inntegrity.py:
  \<^verbatim>\<open>"[{label}] Index_Seq error: expected {expected}, found {seq} for entry {entry}"\<close> and the
  findings of the two index audits.
\<close>

datatype ledger_error =
    Ledger_Index_Seq_error string int pyval pydict
  | Missing_ID_or_Hash pydict
  | Missing_JSON_file pyval
  | Failed_to_load pyval
  | Failed_to_compute_hash pyval error
  | Hash_mismatch pyval pyval string
  | Challenged_Event_ID_does_not_exist pyval pyval

definition ledger_seq_step ::
  "(string \<Rightarrow> int option) \<Rightarrow> string \<Rightarrow> ledger_error list \<times> int \<Rightarrow> pydict \<Rightarrow> ledger_error list \<times> int" where
  "ledger_seq_step int_of_str label st entry =
     (let errors = fst st; expected = snd st;
          seq = dict_get entry ''Index_Seq'' in
      if \<not> py_eq_int seq expected then
        (errors @ [Ledger_Index_Seq_error label expected seq entry],
         (case py_int int_of_str seq of
            Some i \<Rightarrow> i
          | None \<Rightarrow> expected) + 1)
      else (errors, expected + 1))"

definition ledger_seq_loop ::
  "(string \<Rightarrow> int option) \<Rightarrow> pydict list \<Rightarrow> string \<Rightarrow> ledger_error list \<times> int" where
  "ledger_seq_loop int_of_str index_data label =
     foldl (ledger_seq_step int_of_str label) ([], 1) index_data"

definition verify_index_sequence_ledger ::
  "(string \<Rightarrow> int option) \<Rightarrow> pydict list \<Rightarrow> string \<Rightarrow> ledger_error list" where
  "verify_index_sequence_ledger int_of_str index_data label =
     fst (ledger_seq_loop int_of_str index_data label)"

text \<open>
  The two audits word their findings differently. \<open>index_view\<close> is the finding of
  verify\_index.py for what the ledger auditor reports: the same \<open>expected\<close> and \<open>found\<close>, and
  the \<^verbatim>\<open>Event_ID\<close> of the entry the ledger auditor prints whole.
\<close>

fun index_view :: "ledger_error \<Rightarrow> index_error option" where
  "index_view (Ledger_Index_Seq_error label expected seq entry)
     = Some (Index_Seq_error expected seq (dict_get entry ''Event_ID''))"
| "index_view e = None"

text \<open>
  An \<^verbatim>\<open>Index_Seq\<close> that is an \<^verbatim>\<open>int\<close> (a \<^verbatim>\<open>bool\<close> is one), or that \<^verbatim>\<open>int()\<close> rejects.
\<close>

definition int_or_unconvertible :: "(string \<Rightarrow> int option) \<Rightarrow> pyval \<Rightarrow> bool" where
  "int_or_unconvertible int_of_str seq =
     (case seq of
        PInt i \<Rightarrow> True
      | PBool b \<Rightarrow> True
      | _ \<Rightarrow> py_int int_of_str seq = None)"

section \<open>Challenge index audit (verify\_ledger\_inntegrity.py)\<close>

text \<open>
  The record file \<^verbatim>\<open>challenges_dir / f"{challenge_id}.json"\<close> as the audit finds it: absent
  (\<^verbatim>\<open>exists()\<close> is false), not JSON (\<^verbatim>\<open>load_json_file\<close> raises \<^verbatim>\<open>ValueError\<close>), present
  but not readable (\<^verbatim>\<open>open\<close> raises an \<^verbatim>\<open>OSError\<close> that nothing catches), or JSON.
\<close>

datatype file_state = FileAbsent | FileInvalid | FileUnreadable | FileJSON pyval

type_synonym record_dir = "pyval \<Rightarrow> file_state"

text \<open>\<^verbatim>\<open>x in known_event_ids\<close>, for a list of strings.\<close>

fun in_str_list :: "pyval \<Rightarrow> string list \<Rightarrow> bool" where
  "in_str_list (PStr s) known = (s \<in> set known)"
| "in_str_list v known = False"

text \<open>
  One pass of the second loop of \<^verbatim>\<open>verify_challenge_index\<close>: the errors it appends, each
  \<^verbatim>\<open>continue\<close> ending the pass.
\<close>

definition challenge_entry_pass ::
  "hashlib \<Rightarrow> record_dir \<Rightarrow> string list \<Rightarrow> pydict \<Rightarrow> error + ledger_error list" where
  "challenge_entry_pass hashlib_new challenges_dir known_event_ids entry =
     (let challenge_id = dict_get entry ''Challenge_ID'';
          index_hash = dict_get entry ''Hash'';
          challenged_event_id = dict_get entry ''Challenged_Event_ID'' in
      if \<not> truthy challenge_id \<or> \<not> truthy index_hash then Inr [Missing_ID_or_Hash entry]
      else
        (case challenges_dir challenge_id of
           FileAbsent \<Rightarrow> Inr [Missing_JSON_file challenge_id]
         | FileInvalid \<Rightarrow> Inr [Failed_to_load challenge_id]
         | FileUnreadable \<Rightarrow> Inl OSError
         | FileJSON challenge_data \<Rightarrow>
             (case hash_challenge hashlib_new challenge_data ''sha256'' of
                Inl exc \<Rightarrow> Inr [Failed_to_compute_hash challenge_id exc]
              | Inr computed_hash \<Rightarrow>
                  Inr ((if PStr computed_hash \<noteq> index_hash
                        then [Hash_mismatch challenge_id index_hash computed_hash] else [])
                       @ (if truthy challenged_event_id
                             \<and> \<not> in_str_list challenged_event_id known_event_ids
                          then [Challenged_Event_ID_does_not_exist challenged_event_id challenge_id]
                          else [])))))"

fun challenge_loop ::
  "hashlib \<Rightarrow> record_dir \<Rightarrow> string list \<Rightarrow> pydict list \<Rightarrow> ledger_error list
     \<Rightarrow> error + ledger_error list" where
  "challenge_loop hashlib_new challenges_dir known_event_ids [] errors = Inr errors"
| "challenge_loop hashlib_new challenges_dir known_event_ids (entry # rest) errors =
     (case challenge_entry_pass hashlib_new challenges_dir known_event_ids entry of
        Inl exc \<Rightarrow> Inl exc
      | Inr new \<Rightarrow> challenge_loop hashlib_new challenges_dir known_event_ids rest (errors @ new))"

definition verify_challenge_index ::
  "(string \<Rightarrow> int option) \<Rightarrow> hashlib \<Rightarrow> pydict list \<Rightarrow> record_dir \<Rightarrow> string list
     \<Rightarrow> error + ledger_error list" where
  "verify_challenge_index int_of_str hashlib_new index_data challenges_dir known_event_ids =
     challenge_loop hashlib_new challenges_dir known_event_ids index_data
       (verify_index_sequence_ledger int_of_str index_data ''CHALLENGE_INDEX'')"

section \<open>Bundle verification (verify\_bundle.py)\<close>

text \<open>
  The functions return \<open>ok\<close>; their findings are the \<^verbatim>\<open>[ERROR]\<close> lines they write to
  \<^verbatim>\<open>stderr\<close>, kept here in a list beside \<open>ok\<close> (the \<^verbatim>\<open>[OK]\<close> lines on \<^verbatim>\<open>stdout\<close>
  are not findings and are left out). \<^verbatim>\<open>index_entry.get\<close> raises \<^verbatim>\<open>AttributeError\<close>
  when the entry is not a dictionary.
\<close>

datatype bundle_error =
    Invalid_record_object
  | Invalid_record_hash
  | Failed_to_compute error
  | Record_hash_mismatch pyval string
  | Index_Entry_Hash_mismatch pyval pyval

definition verify_event_bundle :: "hashlib \<Rightarrow> pydict \<Rightarrow> error + bool \<times> bundle_error list" where
  "verify_event_bundle hashlib_new bundle =
     (let event = dict_get bundle ''Event'';
          bundle_hash = dict_get bundle ''Event_Hash'';
          index_entry = dict_get bundle ''Index_Entry'';
          st0 = (True, []);
          st1 = (if \<not> is_dict event then (False, snd st0 @ [Invalid_record_object]) else st0);
          st2 = (if \<not> is_str bundle_hash \<or> \<not> truthy bundle_hash
                 then (False, snd st1 @ [Invalid_record_hash]) else st1) in
      if \<not> fst st2 then Inr (False, snd st2)
      else
        (case hash_event hashlib_new event ''sha256'' of
           Inl exc \<Rightarrow> Inr (False, snd st2 @ [Failed_to_compute exc])
         | Inr computed_hash \<Rightarrow>
             (let st3 = (if PStr computed_hash \<noteq> bundle_hash
                         then (False, snd st2 @ [Record_hash_mismatch bundle_hash computed_hash])
                         else st2) in
              if index_entry \<noteq> PNone then
                (case index_entry of
                   PDict ie \<Rightarrow>
                     (let idx_hash = dict_get ie ''Hash'' in
                      if idx_hash \<noteq> bundle_hash
                      then Inr (False, snd st3 @ [Index_Entry_Hash_mismatch idx_hash bundle_hash])
                      else Inr st3)
                 | _ \<Rightarrow> Inl AttributeError)
              else Inr st3)))"

definition verify_challenge_bundle :: "hashlib \<Rightarrow> pydict \<Rightarrow> error + bool \<times> bundle_error list" where
  "verify_challenge_bundle hashlib_new bundle =
     (let challenge = dict_get bundle ''Challenge'';
          bundle_hash = dict_get bundle ''Challenge_Hash'';
          index_entry = dict_get bundle ''Index_Entry'';
          st0 = (True, []);
          st1 = (if \<not> is_dict challenge then (False, snd st0 @ [Invalid_record_object]) else st0);
          st2 = (if \<not> is_str bundle_hash \<or> \<not> truthy bundle_hash
                 then (False, snd st1 @ [Invalid_record_hash]) else st1) in
      if \<not> fst st2 then Inr (False, snd st2)
      else
        (case hash_challenge hashlib_new challenge ''sha256'' of
           Inl exc \<Rightarrow> Inr (False, snd st2 @ [Failed_to_compute exc])
         | Inr computed_hash \<Rightarrow>
             (let st3 = (if PStr computed_hash \<noteq> bundle_hash
                         then (False, snd st2 @ [Record_hash_mismatch bundle_hash computed_hash])
                         else st2) in
              if index_entry \<noteq> PNone then
                (case index_entry of
                   PDict ie \<Rightarrow>
                     (let idx_hash = dict_get ie ''Hash'' in
                      if idx_hash \<noteq> bundle_hash
                      then Inr (False, snd st3 @ [Index_Entry_Hash_mismatch idx_hash bundle_hash])
                      else Inr st3)
                 | _ \<Rightarrow> Inl AttributeError)
              else Inr st3)))"

section \<open>Chain of custody (verify\_chain\_of\_custody.py, export\_chain\_of\_custody.py)\<close>

subsection \<open>\<^verbatim>\<open>verify_chain_of_custody\<close>\<close>

definition is_valid_utc_z :: "pyval \<Rightarrow> bool" where
  "is_valid_utc_z ts =
     (case ts of
        PStr s \<Rightarrow> s \<noteq> [] \<and> last s = CHR ''Z'' \<and> CHR ''T'' \<in> set s
      | _ \<Rightarrow> False)"

text \<open>
  \<^verbatim>\<open>ts <= last_ts\<close>. Two strings compare lexicographically, two numbers by value (no
  comparison with not-a-number holds); two lists compare element-wise, where the outcome
  depends on the identity of the elements: that case is the parameter \<open>list_le\<close>. Every
  other pair raises \<^verbatim>\<open>TypeError\<close>, in particular every pair with \<^verbatim>\<open>None\<close>.
\<close>

fun as_number :: "pyval \<Rightarrow> pyfloat option" where
  "as_number (PBool b) = Some (Finite (if b then 1 else 0) [])"
| "as_number (PInt i) = Some (Finite (of_int i) [])"
| "as_number (PFloat f) = Some f"
| "as_number v = None"

fun float_le :: "pyfloat \<Rightarrow> pyfloat \<Rightarrow> bool" where
  "float_le NaN y = False"
| "float_le x NaN = False"
| "float_le NegInf y = True"
| "float_le x PosInf = True"
| "float_le PosInf y = False"
| "float_le x NegInf = False"
| "float_le (Finite r s) (Finite r' s') = (r \<le> r')"

type_synonym list_order = "pyval list \<Rightarrow> pyval list \<Rightarrow> error + bool"

fun py_le :: "list_order \<Rightarrow> pyval \<Rightarrow> pyval \<Rightarrow> error + bool" where
  "py_le list_le (PStr s) (PStr t) = Inr (s \<le> t)"
| "py_le list_le (PList xs) (PList ys) = list_le xs ys"
| "py_le list_le a b =
     (case (as_number a, as_number b) of
        (Some x, Some y) \<Rightarrow> Inr (float_le x y)
      | _ \<Rightarrow> Inl TypeError)"

text \<open>The \<^verbatim>\<open>[ERROR]\<close> lines; \<open>i\<close> is the entry's number, counted from 1.\<close>

datatype coc_error =
    Missing_Event_ID
  | Missing_Event_Hash
  | Chain_Of_Custody_must_be_a_list
  | Invalid_timestamp nat pyval
  | Missing_Holder_Name nat
  | Missing_Holder_Role nat
  | Missing_Action nat
  | Not_strictly_later nat

text \<open>
  The loop's state is \<open>(ok, errors, last_ts)\<close>. \<^verbatim>\<open>entry.get\<close> raises
  \<^verbatim>\<open>AttributeError\<close> when the entry is not a dictionary.
\<close>

definition coc_entry_step ::
  "list_order \<Rightarrow> nat \<Rightarrow> pyval \<Rightarrow> bool \<times> coc_error list \<times> pyval
     \<Rightarrow> error + bool \<times> coc_error list \<times> pyval" where
  "coc_entry_step list_le i entry st =
     (case entry of
        PDict e \<Rightarrow>
          (let last_ts = snd (snd st);
               ts = dict_get e ''Entry_Timestamp_UTC'';
               holder = dict_get e ''Holder_Name'';
               role = dict_get e ''Holder_Role'';
               action = dict_get e ''Action'';
               s1 = (if \<not> is_valid_utc_z ts
                     then (False, fst (snd st) @ [Invalid_timestamp i ts]) else (fst st, fst (snd st)));
               s2 = (if \<not> is_str holder \<or> \<not> truthy holder
                     then (False, snd s1 @ [Missing_Holder_Name i]) else s1);
               s3 = (if \<not> is_str role \<or> \<not> truthy role
                     then (False, snd s2 @ [Missing_Holder_Role i]) else s2);
               s4 = (if \<not> is_str action \<or> \<not> truthy action
                     then (False, snd s3 @ [Missing_Action i]) else s3) in
           if last_ts \<noteq> PNone then
             (case py_le list_le ts last_ts of
                Inl exc \<Rightarrow> Inl exc
              | Inr le \<Rightarrow>
                  if le then Inr (False, snd s4 @ [Not_strictly_later i], ts)
                  else Inr (fst s4, snd s4, ts))
           else Inr (fst s4, snd s4, ts))
      | _ \<Rightarrow> Inl AttributeError)"

fun coc_loop ::
  "list_order \<Rightarrow> nat \<Rightarrow> pyval list \<Rightarrow> bool \<times> coc_error list \<times> pyval
     \<Rightarrow> error + bool \<times> coc_error list \<times> pyval" where
  "coc_loop list_le i [] st = Inr st"
| "coc_loop list_le i (entry # rest) st =
     (case coc_entry_step list_le i entry st of
        Inl exc \<Rightarrow> Inl exc
      | Inr st' \<Rightarrow> coc_loop list_le (Suc i) rest st')"

definition verify_chain_of_custody :: "list_order \<Rightarrow> pydict \<Rightarrow> error + bool \<times> coc_error list" where
  "verify_chain_of_custody list_le coc =
     (let event_id = dict_get coc ''Event_ID'';
          event_hash = dict_get coc ''Event_Hash'';
          coc_entries = dict_get coc ''Chain_Of_Custody'';
          s0 = (True, []);
          s1 = (if \<not> is_str event_id \<or> \<not> truthy event_id
                then (False, snd s0 @ [Missing_Event_ID]) else s0);
          s2 = (if \<not> is_str event_hash \<or> \<not> truthy event_hash
                then (False, snd s1 @ [Missing_Event_Hash]) else s1) in
      case coc_entries of
        PList entries \<Rightarrow>
          (case coc_loop list_le 1 entries (fst s2, snd s2, PNone) of
             Inl exc \<Rightarrow> Inl exc
           | Inr st \<Rightarrow> Inr (fst st, fst (snd st)))
      | _ \<Rightarrow> Inr (False, snd s2 @ [Chain_Of_Custody_must_be_a_list]))"

subsection \<open>\<^verbatim>\<open>append_coc_entry\<close>\<close>

text \<open>
  The function mutates the log in place and returns nothing, or raises. The model returns
  the exception, if any, and the log as the call leaves it. \<open>now_utc\<close> is the formatted
  clock reading, \<open>bundle_file\<close> is \<^verbatim>\<open>str(bundle_file)\<close>. The two \<^verbatim>\<open>ValueError\<close>s are
  \<open>RecordIdentityMismatch\<close> ("Chain of custody file is bound to Event\_ID ...") and
  \<open>HashIdentityMismatch\<close> ("Event\_Hash in chain of custody file does not match ...").
  \<^verbatim>\<open>coc["Chain_Of_Custody"].append\<close> raises \<^verbatim>\<open>KeyError\<close> without the key and
  \<^verbatim>\<open>AttributeError\<close> when its value is not a list.
\<close>

definition str_or_None :: "string \<Rightarrow> pyval" where
  "str_or_None s = (if s = [] then PNone else PStr s)"

text \<open>
  \<^verbatim>\<open>if coc.get(key) is None: coc[key] = value\<close>
  \<^verbatim>\<open>elif coc[key] != value: raise ValueError(...)\<close>
\<close>

definition bind_or_check :: "pydict \<Rightarrow> string \<Rightarrow> string \<Rightarrow> error \<Rightarrow> error + pydict" where
  "bind_or_check coc key val exc =
     (if dict_get coc key = PNone then Inr (dict_set coc key (PStr val))
      else if dict_get coc key \<noteq> PStr val then Inl exc
      else Inr coc)"

definition append_coc_entry ::
  "string \<Rightarrow> pydict \<Rightarrow> string \<Rightarrow> string \<Rightarrow> string \<Rightarrow> string \<Rightarrow> string \<Rightarrow> string \<Rightarrow> string \<Rightarrow> string
     \<Rightarrow> error option \<times> pydict" where
  "append_coc_entry now_utc coc event_id event_hash bundle_file holder_name holder_role action
       location notes =
     (case bind_or_check coc ''Event_ID'' event_id RecordIdentityMismatch of
        Inl exc \<Rightarrow> (Some exc, coc)
      | Inr coc1 \<Rightarrow>
          (case bind_or_check coc1 ''Event_Hash'' event_hash HashIdentityMismatch of
             Inl exc \<Rightarrow> (Some exc, coc1)
           | Inr coc2 \<Rightarrow>
               (let coc3 = (if dict_get coc2 ''Evidence_Bundle_File'' = PNone
                            then dict_set coc2 ''Evidence_Bundle_File'' (PStr bundle_file)
                            else coc2);
                    entry = PDict [(''Entry_Timestamp_UTC'', PStr now_utc),
                                   (''Holder_Name'', PStr holder_name),
                                   (''Holder_Role'', PStr holder_role),
                                   (''Action'', PStr action),
                                   (''Location'', str_or_None location),
                                   (''Notes'', str_or_None notes)] in
                case map_of coc3 ''Chain_Of_Custody'' of
                  None \<Rightarrow> (Some KeyError, coc3)
                | Some (PList entries) \<Rightarrow>
                    (None, dict_set coc3 ''Chain_Of_Custody'' (PList (entries @ [entry])))
                | Some _ \<Rightarrow> (Some AttributeError, coc3))))"

subsection \<open>Well-formed entries and sample logs\<close>

text \<open>
  An entry with its required fields well-formed: a dictionary whose timestamp passes
  \<^verbatim>\<open>is_valid_utc_z\<close> and whose \<^verbatim>\<open>Holder_Name\<close>, \<^verbatim>\<open>Holder_Role\<close> and \<^verbatim>\<open>Action\<close> are
  non-empty strings; and the timestamp of such an entry.
\<close>

definition good_entry :: "pyval \<Rightarrow> bool" where
  "good_entry entry =
     (case entry of
        PDict e \<Rightarrow>
          is_valid_utc_z (dict_get e ''Entry_Timestamp_UTC'')
          \<and> is_str (dict_get e ''Holder_Name'') \<and> truthy (dict_get e ''Holder_Name'')
          \<and> is_str (dict_get e ''Holder_Role'') \<and> truthy (dict_get e ''Holder_Role'')
          \<and> is_str (dict_get e ''Action'') \<and> truthy (dict_get e ''Action'')
      | _ \<Rightarrow> False)"

definition entry_ts :: "pyval \<Rightarrow> string" where
  "entry_ts entry =
     (case entry of
        PDict e \<Rightarrow> (case dict_get e ''Entry_Timestamp_UTC'' of PStr s \<Rightarrow> s | _ \<Rightarrow> [])
      | _ \<Rightarrow> [])"

text \<open>
  An entry as \<^verbatim>\<open>append_coc_entry\<close> writes it, with the given timestamp, and a log bound to
  \<^verbatim>\<open>Event_ID = "E1"\<close> holding the given entries.
\<close>

definition custody_entry :: "string \<Rightarrow> pyval" where
  "custody_entry ts =
     PDict [(''Entry_Timestamp_UTC'', PStr ts), (''Holder_Name'', PStr ''Ann''),
            (''Holder_Role'', PStr ''Clerk''), (''Action'', PStr ''Created''),
            (''Location'', PNone), (''Notes'', PNone)]"

definition custody_log :: "pyval list \<Rightarrow> pydict" where
  "custody_log entries =
     [(''CoC_Version'', PStr ''1.0''), (''Event_ID'', PStr ''E1''), (''Event_Hash'', PStr ''ab12''),
      (''Evidence_Bundle_File'', PStr ''bundle.json''), (''Chain_Of_Custody'', PList entries)]"

section \<open>Properties of the canonical encoder\<close>

subsection \<open>Key order\<close>

lemma sorted_keys_unique:
  fixes d d' :: pydict
  assumes "distinct (map fst d)" "distinct (map fst d')" "set (map fst d) = set (map fst d')"
  shows "map fst (sort_key fst d) = map fst (sort_key fst d')"
proof (rule sorted_distinct_set_unique)
  show "sorted (map fst (sort_key fst d))" by (rule sorted_sort_key)
  show "sorted (map fst (sort_key fst d'))" by (rule sorted_sort_key)
  show "distinct (map fst (sort_key fst d))"
    using assms(1) by (simp add: distinct_map)
  show "distinct (map fst (sort_key fst d'))"
    using assms(2) by (simp add: distinct_map)
  show "set (map fst (sort_key fst d)) = set (map fst (sort_key fst d'))"
    using assms(3) by simp
qed

lemma map_via_keys:
  fixes d :: pydict
  assumes "distinct (map fst d)"
  shows "map F (sort_key fst d) = map (\<lambda>k. F (k, the (map_of d k))) (map fst (sort_key fst d))"
proof -
  have "F kv = F (fst kv, the (map_of d (fst kv)))" if "kv \<in> set (sort_key fst d)" for kv
  proof -
    from that have "kv \<in> set d" by simp
    then have "(fst kv, snd kv) \<in> set d" by simp
    then have "map_of d (fst kv) = Some (snd kv)" using assms by (simp only: map_of_eq_Some_iff)
    then show ?thesis by simp
  qed
  then show ?thesis by (simp add: comp_def)
qed

lemma json_dumps_same_record:
  "same_record x y \<Longrightarrow> wf_value x \<Longrightarrow> wf_value y \<Longrightarrow> json_dumps x = json_dumps y"
proof (induction x arbitrary: y rule: json_dumps.induct)
  case (6 xs)
  then obtain ys where y: "y = PList ys" by (cases y) auto
  from 6 y have len: "length xs = length ys"
    and rel: "\<And>xy. xy \<in> set (zip xs ys) \<Longrightarrow> same_record (fst xy) (snd xy)" by auto
  have "map json_dumps xs = map json_dumps ys"
  proof (rule nth_equalityI)
    show "length (map json_dumps xs) = length (map json_dumps ys)" using len by simp
  next
    fix i assume "i < length (map json_dumps xs)"
    then have i: "i < length xs" "i < length ys" using len by simp_all
    then have "(xs ! i, ys ! i) \<in> set (zip xs ys)"
      by (metis in_set_zip fst_conv snd_conv)
    then have "same_record (xs ! i) (ys ! i)" using rel by fastforce
    moreover have "wf_value (xs ! i)" "wf_value (ys ! i)" using 6(3,4) y i by auto
    ultimately have "json_dumps (xs ! i) = json_dumps (ys ! i)"
      using 6(1) i by simp
    then show "map json_dumps xs ! i = map json_dumps ys ! i" using i by simp
  qed
  then show ?case using y by simp
next
  case (7 d)
  then obtain d' where y: "y = PDict d'" by (cases y) auto
  let ?F = "\<lambda>kv. case json_dumps (snd kv) of Inl e \<Rightarrow> Inl e
                 | Inr s \<Rightarrow> Inr (encode_basestring (fst kv) @ '':'' @ s)"
  from 7 y have dist: "distinct (map fst d)" "distinct (map fst d')"
    and keys: "set (map fst d) = set (map fst d')" by auto
  have vals: "json_dumps (the (map_of d k)) = json_dumps (the (map_of d' k))"
    if "k \<in> set (map fst d)" for k
  proof -
    from that obtain v where kv: "(k, v) \<in> set d" by auto
    then have mo: "map_of d k = Some v" using dist by simp
    from 7(2) y have "\<forall>kv \<in> set d. case map_of d' (fst kv) of None \<Rightarrow> False
                                   | Some v' \<Rightarrow> same_record (snd kv) v'" by simp
    from bspec[OF this kv]
    have "case map_of d' k of None \<Rightarrow> False | Some v' \<Rightarrow> same_record v v'"
      by (auto split: option.splits)
    then obtain v' where mo': "map_of d' k = Some v'" and same: "same_record v v'"
      by (auto split: option.splits)
    from mo' have "(k, v') \<in> set d'" by (rule map_of_SomeD)
    then have "wf_value v'" using 7(4) y by fastforce
    moreover have "wf_value v" using 7(3) kv by fastforce
    ultimately have "json_dumps v = json_dumps v'"
      using 7(1)[of "(k, v)" v'] kv same by simp
    then show ?thesis using mo mo' by simp
  qed
  have "map ?F (sort_key fst d) = map (\<lambda>k. ?F (k, the (map_of d k))) (map fst (sort_key fst d))"
    using dist(1) by (rule map_via_keys)
  also have "\<dots> = map (\<lambda>k. ?F (k, the (map_of d' k))) (map fst (sort_key fst d))"
  proof (rule map_cong[OF refl])
    fix k assume "k \<in> set (map fst (sort_key fst d))"
    then have "k \<in> set (map fst d)" by simp
    from vals[OF this] show "?F (k, the (map_of d k)) = ?F (k, the (map_of d' k))"
      by (simp split: sum.splits)
  qed
  also have "\<dots> = map (\<lambda>k. ?F (k, the (map_of d' k))) (map fst (sort_key fst d'))"
    using sorted_keys_unique[OF dist keys] by simp
  also have "\<dots> = map ?F (sort_key fst d')"
    using dist(2) by (rule map_via_keys[symmetric])
  finally show ?case using y by simp
qed auto

text \<open>
  Claim C1. Two records that are equal as unordered key/value structures (the same keys
  mapped to equal values, whatever the order of the keys) have the same canonical bytes, under
  both copies of \<^verbatim>\<open>canonical_serialize\<close>. Equality of values is \<open>same_record\<close>: a value
  together with its type.
\<close>

theorem canonical_serialize_key_order:
  "same_record x y \<Longrightarrow> wf_value x \<Longrightarrow> wf_value y \<Longrightarrow>
     event_serialize x = event_serialize y \<and> challenge_serialize x = challenge_serialize y"
  by (simp add: event_serialize_def challenge_serialize_def json_dumps_same_record)

text \<open>The spec's instance: \<^verbatim>\<open>encode({a:1,b:2}) == encode({b:2,a:1})\<close>.\<close>

theorem canonical_serialize_key_order_witness:
  "same_record (PDict [(''a'', PInt 1), (''b'', PInt 2)]) (PDict [(''b'', PInt 2), (''a'', PInt 1)])
   \<and> wf_value (PDict [(''a'', PInt 1), (''b'', PInt 2)])
   \<and> wf_value (PDict [(''b'', PInt 2), (''a'', PInt 1)])
   \<and> event_serialize (PDict [(''a'', PInt 1), (''b'', PInt 2)])
       = event_serialize (PDict [(''b'', PInt 2), (''a'', PInt 1)])
   \<and> challenge_serialize (PDict [(''a'', PInt 1), (''b'', PInt 2)])
       = challenge_serialize (PDict [(''b'', PInt 2), (''a'', PInt 1)])"
proof -
  have s: "same_record (PDict [(''a'', PInt 1), (''b'', PInt 2)])
             (PDict [(''b'', PInt 2), (''a'', PInt 1)])"
    by code_simp
  have w1: "wf_value (PDict [(''a'', PInt 1), (''b'', PInt 2)])" by simp
  have w2: "wf_value (PDict [(''b'', PInt 2), (''a'', PInt 1)])" by simp
  from canonical_serialize_key_order [OF s w1 w2] s w1 w2 show ?thesis by blast
qed

subsection \<open>Values the encoder rejects\<close>

lemma collect_Inl_mem: "collect rs = Inl e \<Longrightarrow> Inl e \<in> set rs"
  by (induction rs rule: collect.induct) (auto split: sum.splits)

lemma collect_isl: "\<exists>r \<in> set rs. isl r \<Longrightarrow> isl (collect rs)"
  by (induction rs rule: collect.induct) (auto split: sum.splits)

lemma json_dumps_error: "json_dumps v = Inl e \<Longrightarrow> e = TypeError"
proof (induction v arbitrary: e rule: json_dumps.induct)
  case (6 xs)
  from 6(2) have "collect (map json_dumps xs) = Inl e" by (simp split: sum.splits)
  then have "Inl e \<in> set (map json_dumps xs)" by (rule collect_Inl_mem)
  then obtain x where "x \<in> set xs" "json_dumps x = Inl e" by auto
  then show ?case using 6(1) by blast
next
  case (7 d)
  let ?F = "\<lambda>kv. case json_dumps (snd kv) of Inl e \<Rightarrow> Inl e
                 | Inr s \<Rightarrow> Inr (encode_basestring (fst kv) @ '':'' @ s)"
  from 7(2) have "collect (map ?F (sort_key fst d)) = Inl e" by (simp split: sum.splits)
  then have "Inl e \<in> set (map ?F (sort_key fst d))" by (rule collect_Inl_mem)
  then obtain kv where kv: "kv \<in> set (sort_key fst d)" and "?F kv = Inl e" by auto
  then have "json_dumps (snd kv) = Inl e" by (simp split: sum.splits)
  then show ?case using 7(1) kv by blast
qed (auto split: if_splits)

lemma json_dumps_unsupported_isl: "unsupported v \<Longrightarrow> isl (json_dumps v)"
proof (induction v rule: json_dumps.induct)
  case (6 xs)
  then obtain x where "x \<in> set xs" "isl (json_dumps x)" by auto
  then have "\<exists>r \<in> set (map json_dumps xs). isl r" by auto
  then have "isl (collect (map json_dumps xs))" by (rule collect_isl)
  then show ?case by (cases "collect (map json_dumps xs)") auto
next
  case (7 d)
  let ?F = "\<lambda>kv. case json_dumps (snd kv) of Inl e \<Rightarrow> Inl e
                 | Inr s \<Rightarrow> Inr (encode_basestring (fst kv) @ '':'' @ s)"
  from 7 obtain kv where kv: "kv \<in> set d" and "isl (json_dumps (snd kv))" by auto
  then have "isl (?F kv)" by (cases "json_dumps (snd kv)") auto
  then have "\<exists>r \<in> set (map ?F (sort_key fst d)). isl r" using kv by auto
  then have "isl (collect (map ?F (sort_key fst d)))" by (rule collect_isl)
  then show ?case by (cases "collect (map ?F (sort_key fst d))") auto
qed auto

lemma json_dumps_unsupported: "unsupported v \<Longrightarrow> json_dumps v = Inl TypeError"
proof -
  assume "unsupported v"
  then have "isl (json_dumps v)" by (rule json_dumps_unsupported_isl)
  then obtain e where e: "json_dumps v = Inl e" by (cases "json_dumps v") auto
  then have "e = TypeError" by (rule json_dumps_error)
  with e show ?thesis by simp
qed

text \<open>
  Claim C2, as the code has it. A record that holds a value of a type the JSON encoder does
  not support makes both copies of \<^verbatim>\<open>canonical_serialize\<close> fail with \<^verbatim>\<open>TypeError\<close>: no
  bytes are returned and nothing is substituted. (A non-finite number is not such a value,
  see the counterexample.)
\<close>

theorem canonical_serialize_rejects_unsupported:
  "unsupported v \<Longrightarrow>
     event_serialize v = Inl TypeError \<and> challenge_serialize v = Inl TypeError"
  by (simp add: event_serialize_def challenge_serialize_def json_dumps_unsupported)

theorem canonical_serialize_rejects_unsupported_witness:
  "unsupported (PDict [(''x'', PList [PInt 1, PObject])])
   \<and> event_serialize (PDict [(''x'', PList [PInt 1, PObject])]) = Inl TypeError
   \<and> challenge_serialize (PDict [(''x'', PList [PInt 1, PObject])]) = Inl TypeError"
  using canonical_serialize_rejects_unsupported [of "PDict [(''x'', PList [PInt 1, PObject])]"]
  by simp

text \<open>
  Claim C2 as stated fails: the record \<^verbatim>\<open>{"x": NaN}\<close> (which \<^verbatim>\<open>json.load\<close> reads from a
  file) is encoded, to the bytes of \<^verbatim>\<open>{"x":NaN}\<close>.
\<close>

theorem canonical_serialize_nan_counterexample:
  "event_serialize (PDict [(''x'', PFloat NaN)])
     = Inr ([CHR ''{'', CHR 0x22, CHR ''x'', CHR 0x22, CHR '':''] @ ''NaN}'')"
  by (simp add: event_serialize_def encode_utf8_def encode_basestring_def escape_char_def)

subsection \<open>The two hashing pipelines\<close>

text \<open>
  Claim C9. \<^verbatim>\<open>hash_event\<close> and \<^verbatim>\<open>hash_challenge\<close> agree on every record and algorithm name,
  in the digest and in the exception, and so do the two \<^verbatim>\<open>canonical_serialize\<close> functions.
\<close>

theorem hash_event_eq_hash_challenge:
  "hash_event hashlib_new R a = hash_challenge hashlib_new R a
   \<and> event_serialize R = challenge_serialize R"
  by (simp add: hash_event_def hash_challenge_def event_serialize_def challenge_serialize_def)

section \<open>Properties of the sequence audit\<close>

lemma index_seq_loop_snoc:
  "index_seq_loop (pre @ [entry]) = index_seq_step (index_seq_loop pre) entry"
  by (simp add: index_seq_loop_def)

lemma ledger_seq_loop_snoc:
  "ledger_seq_loop int_of_str (pre @ [entry]) label
     = ledger_seq_step int_of_str label (ledger_seq_loop int_of_str pre label) entry"
  by (simp add: ledger_seq_loop_def)

lemma py_eq_int_isinstance:
  "py_eq_int seq n \<Longrightarrow> (case seq of PInt i \<Rightarrow> i | PBool b \<Rightarrow> (if b then 1 else 0) | _ \<Rightarrow> n) = n"
  by (cases seq) (auto split: if_splits)

lemma py_eq_int_py_int: "py_eq_int seq n \<Longrightarrow> py_int int_of_str seq = Some n"
proof (cases seq)
  case (PFloat f)
  assume "py_eq_int seq n"
  with PFloat show ?thesis by (cases f) auto
qed auto

lemma index_seq_step_expected:
  "snd (index_seq_step st entry)
     = (case dict_get entry ''Index_Seq'' of
          PInt i \<Rightarrow> i | PBool b \<Rightarrow> (if b then 1 else 0) | _ \<Rightarrow> snd st) + 1"
  using py_eq_int_isinstance [of "dict_get entry ''Index_Seq''" "snd st"]
  by (simp add: index_seq_step_def Let_def)

lemma ledger_seq_step_expected:
  "snd (ledger_seq_step int_of_str label st entry)
     = (case py_int int_of_str (dict_get entry ''Index_Seq'') of
          Some i \<Rightarrow> i | None \<Rightarrow> snd st) + 1"
  using py_eq_int_py_int [of "dict_get entry ''Index_Seq''" "snd st" int_of_str]
  by (simp add: ledger_seq_step_def Let_def)

text \<open>
  Claim C3. Both sequence audits walk the entries in list order, starting with
  \<open>expected = 1\<close>. Walking one more entry appends a finding exactly when the entry's
  \<^verbatim>\<open>Index_Seq\<close> differs from \<open>expected\<close>, carrying \<open>expected\<close> and the value found; afterwards
  \<open>expected\<close> is one more than the observed value when that is an integer (for the ledger
  auditor: when \<^verbatim>\<open>int()\<close> converts it, which returns an integer unchanged), and one more than
  before otherwise. So \<^verbatim>\<open>Index_Seq = [1,2,3]\<close> has no finding and \<^verbatim>\<open>[1,3,4]\<close> has exactly
  one, expected 2 and found 3.
\<close>

theorem sequence_audit_walk:
  "snd (index_seq_loop []) = 1
   \<and> verify_index_sequence (pre @ [entry])
       = verify_index_sequence pre
         @ (if py_eq_int (dict_get entry ''Index_Seq'') (snd (index_seq_loop pre)) then []
            else [Index_Seq_error (snd (index_seq_loop pre)) (dict_get entry ''Index_Seq'')
                    (dict_get entry ''Event_ID'')])
   \<and> snd (index_seq_loop (pre @ [entry]))
       = (case dict_get entry ''Index_Seq'' of
            PInt i \<Rightarrow> i | PBool b \<Rightarrow> (if b then 1 else 0) | _ \<Rightarrow> snd (index_seq_loop pre)) + 1
   \<and> snd (ledger_seq_loop int_of_str [] label) = 1
   \<and> verify_index_sequence_ledger int_of_str (pre @ [entry]) label
       = verify_index_sequence_ledger int_of_str pre label
         @ (if py_eq_int (dict_get entry ''Index_Seq'') (snd (ledger_seq_loop int_of_str pre label))
            then []
            else [Ledger_Index_Seq_error label (snd (ledger_seq_loop int_of_str pre label))
                    (dict_get entry ''Index_Seq'') entry])
   \<and> snd (ledger_seq_loop int_of_str (pre @ [entry]) label)
       = (case py_int int_of_str (dict_get entry ''Index_Seq'') of
            Some i \<Rightarrow> i | None \<Rightarrow> snd (ledger_seq_loop int_of_str pre label)) + 1
   \<and> py_int int_of_str (PInt n) = Some n
   \<and> verify_index_sequence
        [[(''Index_Seq'', PInt 1)], [(''Index_Seq'', PInt 2)], [(''Index_Seq'', PInt 3)]] = []
   \<and> verify_index_sequence
        [[(''Index_Seq'', PInt 1)], [(''Index_Seq'', PInt 3)], [(''Index_Seq'', PInt 4)]]
       = [Index_Seq_error 2 (PInt 3) PNone]
   \<and> verify_index_sequence_ledger int_of_str
        [[(''Index_Seq'', PInt 1)], [(''Index_Seq'', PInt 2)], [(''Index_Seq'', PInt 3)]] label = []
   \<and> verify_index_sequence_ledger int_of_str
        [[(''Index_Seq'', PInt 1)], [(''Index_Seq'', PInt 3)], [(''Index_Seq'', PInt 4)]] label
       = [Ledger_Index_Seq_error label 2 (PInt 3) [(''Index_Seq'', PInt 3)]]"
proof -
  have a: "snd (index_seq_loop []) = 1" by (simp add: index_seq_loop_def)
  have b: "verify_index_sequence (pre @ [entry])
       = verify_index_sequence pre
         @ (if py_eq_int (dict_get entry ''Index_Seq'') (snd (index_seq_loop pre)) then []
            else [Index_Seq_error (snd (index_seq_loop pre)) (dict_get entry ''Index_Seq'')
                    (dict_get entry ''Event_ID'')])"
    by (simp add: verify_index_sequence_def index_seq_loop_snoc index_seq_step_def Let_def)
  have c: "snd (index_seq_loop (pre @ [entry]))
       = (case dict_get entry ''Index_Seq'' of
            PInt i \<Rightarrow> i | PBool b \<Rightarrow> (if b then 1 else 0) | _ \<Rightarrow> snd (index_seq_loop pre)) + 1"
    by (simp only: index_seq_loop_snoc index_seq_step_expected)
  have d: "snd (ledger_seq_loop int_of_str [] label) = 1" by (simp add: ledger_seq_loop_def)
  have e: "verify_index_sequence_ledger int_of_str (pre @ [entry]) label
       = verify_index_sequence_ledger int_of_str pre label
         @ (if py_eq_int (dict_get entry ''Index_Seq'') (snd (ledger_seq_loop int_of_str pre label))
            then []
            else [Ledger_Index_Seq_error label (snd (ledger_seq_loop int_of_str pre label))
                    (dict_get entry ''Index_Seq'') entry])"
    by (simp add: verify_index_sequence_ledger_def ledger_seq_loop_snoc ledger_seq_step_def Let_def)
  have f: "snd (ledger_seq_loop int_of_str (pre @ [entry]) label)
       = (case py_int int_of_str (dict_get entry ''Index_Seq'') of
            Some i \<Rightarrow> i | None \<Rightarrow> snd (ledger_seq_loop int_of_str pre label)) + 1"
    by (simp only: ledger_seq_loop_snoc ledger_seq_step_expected)
  have g: "py_int int_of_str (PInt n) = Some n" by simp
  have h: "verify_index_sequence
        [[(''Index_Seq'', PInt 1)], [(''Index_Seq'', PInt 2)], [(''Index_Seq'', PInt 3)]] = []"
    by (simp add: verify_index_sequence_def index_seq_loop_def index_seq_step_def dict_get_def Let_def)
  have i: "verify_index_sequence
        [[(''Index_Seq'', PInt 1)], [(''Index_Seq'', PInt 3)], [(''Index_Seq'', PInt 4)]]
       = [Index_Seq_error 2 (PInt 3) PNone]"
    by (simp add: verify_index_sequence_def index_seq_loop_def index_seq_step_def dict_get_def Let_def)
  have j: "verify_index_sequence_ledger int_of_str
        [[(''Index_Seq'', PInt 1)], [(''Index_Seq'', PInt 2)], [(''Index_Seq'', PInt 3)]] label = []"
    by (simp add: verify_index_sequence_ledger_def ledger_seq_loop_def ledger_seq_step_def dict_get_def Let_def)
  have k: "verify_index_sequence_ledger int_of_str
        [[(''Index_Seq'', PInt 1)], [(''Index_Seq'', PInt 3)], [(''Index_Seq'', PInt 4)]] label
       = [Ledger_Index_Seq_error label 2 (PInt 3) [(''Index_Seq'', PInt 3)]]"
    by (simp add: verify_index_sequence_ledger_def ledger_seq_loop_def ledger_seq_step_def dict_get_def Let_def)
  from a b c d e f g h i j k show ?thesis by (intro conjI)
qed

theorem sequence_audit_walk_witness:
  "snd (index_seq_loop ([[(''Index_Seq'', PInt 1)]] @ [[(''Index_Seq'', PInt 3)]])) = 4
   \<and> verify_index_sequence ([[(''Index_Seq'', PInt 1)]] @ [[(''Index_Seq'', PInt 3)]])
       = [Index_Seq_error 2 (PInt 3) PNone]"
  using sequence_audit_walk [of "[[(''Index_Seq'', PInt 1)]]" "[(''Index_Seq'', PInt 3)]"]
  by (simp add: verify_index_sequence_def index_seq_loop_def index_seq_step_def dict_get_def Let_def)

subsection \<open>The two implementations\<close>

lemma resync_agree:
  "int_or_unconvertible int_of_str seq \<Longrightarrow>
     (case py_int int_of_str seq of Some i \<Rightarrow> i | None \<Rightarrow> n)
       = (case seq of PInt i \<Rightarrow> i | PBool b \<Rightarrow> (if b then 1 else 0) | _ \<Rightarrow> n)"
  by (cases seq) (auto simp: int_or_unconvertible_def)

lemma seq_loops_agree:
  "\<forall>entry \<in> set idx. int_or_unconvertible int_of_str (dict_get entry ''Index_Seq'') \<Longrightarrow>
     snd (ledger_seq_loop int_of_str idx label) = snd (index_seq_loop idx)
     \<and> map index_view (fst (ledger_seq_loop int_of_str idx label))
         = map Some (fst (index_seq_loop idx))"
proof (induction idx rule: rev_induct)
  case Nil
  show ?case by (simp add: ledger_seq_loop_def index_seq_loop_def)
next
  case (snoc entry pre)
  then have ih: "snd (ledger_seq_loop int_of_str pre label) = snd (index_seq_loop pre)"
    "map index_view (fst (ledger_seq_loop int_of_str pre label)) = map Some (fst (index_seq_loop pre))"
    and ok: "int_or_unconvertible int_of_str (dict_get entry ''Index_Seq'')"
    by auto
  have "snd (ledger_seq_loop int_of_str (pre @ [entry]) label) = snd (index_seq_loop (pre @ [entry]))"
    by (simp only: ledger_seq_loop_snoc index_seq_loop_snoc ledger_seq_step_expected
          index_seq_step_expected ih(1) resync_agree [OF ok])
  moreover have "map index_view (fst (ledger_seq_loop int_of_str (pre @ [entry]) label))
      = map Some (fst (index_seq_loop (pre @ [entry])))"
    using ih by (simp add: ledger_seq_loop_snoc index_seq_loop_snoc ledger_seq_step_def
          index_seq_step_def Let_def)
  ultimately show ?case by simp
qed

text \<open>
  Claim C10, as the code has it. On an entry list in which every \<^verbatim>\<open>Index_Seq\<close> is an
  integer or a value \<^verbatim>\<open>int()\<close> rejects (\<^verbatim>\<open>None\<close>, a missing key, a list, ...), the two
  implementations flag the same entries with the same expected and found values.
\<close>

theorem sequence_audits_agree_on_integers:
  "\<forall>entry \<in> set idx. int_or_unconvertible int_of_str (dict_get entry ''Index_Seq'') \<Longrightarrow>
     map index_view (verify_index_sequence_ledger int_of_str idx label)
       = map Some (verify_index_sequence idx)"
  by (simp add: verify_index_sequence_ledger_def verify_index_sequence_def seq_loops_agree)

theorem sequence_audits_agree_on_integers_witness:
  "(\<forall>int_of_str.
      list_all (\<lambda>entry. int_or_unconvertible int_of_str (dict_get entry ''Index_Seq''))
        [[(''Index_Seq'', PInt 1), (''Event_ID'', PStr ''E1'')],
         [(''Index_Seq'', PInt 3), (''Event_ID'', PStr ''E2'')],
         [(''Event_ID'', PStr ''E3'')]]
    \<and> map index_view (verify_index_sequence_ledger int_of_str
        [[(''Index_Seq'', PInt 1), (''Event_ID'', PStr ''E1'')],
         [(''Index_Seq'', PInt 3), (''Event_ID'', PStr ''E2'')],
         [(''Event_ID'', PStr ''E3'')]] ''EVENT_INDEX'')
       = [Some (Index_Seq_error 2 (PInt 3) (PStr ''E2'')), Some (Index_Seq_error 4 PNone (PStr ''E3''))])"
proof (intro allI conjI)
  fix int_of_str :: "string \<Rightarrow> int option"
  let ?idx = "[[(''Index_Seq'', PInt 1), (''Event_ID'', PStr ''E1'')],
         [(''Index_Seq'', PInt 3), (''Event_ID'', PStr ''E2'')],
         [(''Event_ID'', PStr ''E3'')]]"
  show h: "list_all (\<lambda>entry. int_or_unconvertible int_of_str (dict_get entry ''Index_Seq'')) ?idx"
    by (simp add: int_or_unconvertible_def dict_get_def)
  then have "\<forall>entry \<in> set ?idx. int_or_unconvertible int_of_str (dict_get entry ''Index_Seq'')"
    by (simp only: list_all_iff)
  from sequence_audits_agree_on_integers [OF this, of "''EVENT_INDEX''"]
  show "map index_view (verify_index_sequence_ledger int_of_str ?idx ''EVENT_INDEX'')
       = [Some (Index_Seq_error 2 (PInt 3) (PStr ''E2'')), Some (Index_Seq_error 4 PNone (PStr ''E3''))]"
    by (simp add: verify_index_sequence_def index_seq_loop_def index_seq_step_def dict_get_def Let_def)
qed

text \<open>
  Claim C10 as stated fails on \<^verbatim>\<open>Index_Seq = [1, 3.0, 4]\<close>: \<^verbatim>\<open>isinstance(3.0, int)\<close> is
  false, so verify\_index.py keeps \<open>expected\<close> and flags the third entry too, while
  \<^verbatim>\<open>int(3.0)\<close> is 3, so the ledger auditor resynchronizes and flags the second entry only.
  (No \<^verbatim>\<open>Index_Seq\<close> here is a string: \<open>int_of_str\<close> is not consulted.)
\<close>

theorem sequence_audits_differ_counterexample:
  "verify_index_sequence
     [[(''Index_Seq'', PInt 1), (''Event_ID'', PStr ''E1'')],
      [(''Index_Seq'', PFloat (Finite 3 ''3.0'')), (''Event_ID'', PStr ''E2'')],
      [(''Index_Seq'', PInt 4), (''Event_ID'', PStr ''E3'')]]
    = [Index_Seq_error 2 (PFloat (Finite 3 ''3.0'')) (PStr ''E2''),
       Index_Seq_error 3 (PInt 4) (PStr ''E3'')]
   \<and> (\<forall>int_of_str. verify_index_sequence_ledger int_of_str
     [[(''Index_Seq'', PInt 1), (''Event_ID'', PStr ''E1'')],
      [(''Index_Seq'', PFloat (Finite 3 ''3.0'')), (''Event_ID'', PStr ''E2'')],
      [(''Index_Seq'', PInt 4), (''Event_ID'', PStr ''E3'')]] ''EVENT_INDEX''
    = [Ledger_Index_Seq_error ''EVENT_INDEX'' 2 (PFloat (Finite 3 ''3.0''))
         [(''Index_Seq'', PFloat (Finite 3 ''3.0'')), (''Event_ID'', PStr ''E2'')]])"
  by (simp add: verify_index_sequence_def index_seq_loop_def index_seq_step_def
        verify_index_sequence_ledger_def ledger_seq_loop_def ledger_seq_step_def dict_get_def Let_def)

section \<open>Properties of the challenge index audit\<close>

text \<open>
  A pass that gets as far as comparing the hashes does make the cross-link check, whether or
  not the hashes agree.
\<close>

lemma dangling_reference_reported_when_record_hashes:
  assumes "truthy (dict_get entry ''Challenge_ID'')" and "truthy (dict_get entry ''Hash'')"
    and "challenges_dir (dict_get entry ''Challenge_ID'') = FileJSON challenge_data"
    and "hash_challenge hashlib_new challenge_data ''sha256'' = Inr computed_hash"
    and "truthy (dict_get entry ''Challenged_Event_ID'')"
    and "\<not> in_str_list (dict_get entry ''Challenged_Event_ID'') known_event_ids"
  shows "challenge_entry_pass hashlib_new challenges_dir known_event_ids entry
     = Inr ((if PStr computed_hash \<noteq> dict_get entry ''Hash''
             then [Hash_mismatch (dict_get entry ''Challenge_ID'') (dict_get entry ''Hash'')
                     computed_hash] else [])
            @ [Challenged_Event_ID_does_not_exist (dict_get entry ''Challenged_Event_ID'')
                 (dict_get entry ''Challenge_ID'')])"
  using assms by (simp add: challenge_entry_pass_def Let_def)

text \<open>
  Claim C4 fails on the code. The entry below names a challenged event \<^verbatim>\<open>E9\<close> that the event
  ledger does not hold, and its challenge record file is missing: the pass over the entry
  ends at the \<^verbatim>\<open>continue\<close> after "Missing Challenge JSON file", before the cross-link
  check, and no dangling-reference finding is reported.
\<close>

theorem dangling_reference_skipped_when_record_missing:
  "verify_challenge_index int_of_str hashlib_new
     [[(''Index_Seq'', PInt 1), (''Challenge_ID'', PStr ''C1''), (''Hash'', PStr ''ab12''),
       (''Challenged_Event_ID'', PStr ''E9'')]]
     (\<lambda>challenge_id. FileAbsent) [''E1'']
   = Inr [Missing_JSON_file (PStr ''C1'')]"
  by (simp add: verify_challenge_index_def verify_index_sequence_ledger_def ledger_seq_loop_def
        ledger_seq_step_def challenge_entry_pass_def dict_get_def Let_def)

section \<open>Properties of bundle verification\<close>

lemma verify_event_bundle_ok_iff:
  "verify_event_bundle hashlib_new bundle = Inr (ok, errs) \<Longrightarrow> ok = (errs = [])"
  by (auto simp: verify_event_bundle_def Let_def split: if_splits sum.splits pyval.splits)

lemma verify_challenge_bundle_ok_iff:
  "verify_challenge_bundle hashlib_new bundle = Inr (ok, errs) \<Longrightarrow> ok = (errs = [])"
  by (auto simp: verify_challenge_bundle_def Let_def split: if_splits sum.splits pyval.splits)

text \<open>
  Claim C5, as the code has it. For a bundle that passes the structural check, whose record
  hash can be computed and whose \<^verbatim>\<open>Index_Entry\<close> is a dictionary, the findings are the record
  hash mismatch, if any, followed by the index hash mismatch, if any: each comparison is made
  and reported whatever the other gave, so both findings appear when both fail. And whenever
  verification returns, \<open>ok\<close> holds iff there is no finding. The same for challenge bundles.
\<close>

theorem bundle_steps_independent:
  "(is_dict (dict_get bundle ''Event'')
      \<and> is_str (dict_get bundle ''Event_Hash'') \<and> truthy (dict_get bundle ''Event_Hash'')
      \<and> hash_event hashlib_new (dict_get bundle ''Event'') ''sha256'' = Inr computed_hash
      \<and> dict_get bundle ''Index_Entry'' = PDict ie
    \<longrightarrow> verify_event_bundle hashlib_new bundle
        = Inr (PStr computed_hash = dict_get bundle ''Event_Hash''
                 \<and> dict_get ie ''Hash'' = dict_get bundle ''Event_Hash'',
               (if PStr computed_hash \<noteq> dict_get bundle ''Event_Hash''
                then [Record_hash_mismatch (dict_get bundle ''Event_Hash'') computed_hash] else [])
               @ (if dict_get ie ''Hash'' \<noteq> dict_get bundle ''Event_Hash''
                  then [Index_Entry_Hash_mismatch (dict_get ie ''Hash'')
                          (dict_get bundle ''Event_Hash'')] else [])))
   \<and> (verify_event_bundle hashlib_new bundle = Inr (ok, errs) \<longrightarrow> ok = (errs = []))
   \<and> (is_dict (dict_get bundle ''Challenge'')
      \<and> is_str (dict_get bundle ''Challenge_Hash'') \<and> truthy (dict_get bundle ''Challenge_Hash'')
      \<and> hash_challenge hashlib_new (dict_get bundle ''Challenge'') ''sha256'' = Inr computed_hash
      \<and> dict_get bundle ''Index_Entry'' = PDict ie
    \<longrightarrow> verify_challenge_bundle hashlib_new bundle
        = Inr (PStr computed_hash = dict_get bundle ''Challenge_Hash''
                 \<and> dict_get ie ''Hash'' = dict_get bundle ''Challenge_Hash'',
               (if PStr computed_hash \<noteq> dict_get bundle ''Challenge_Hash''
                then [Record_hash_mismatch (dict_get bundle ''Challenge_Hash'') computed_hash] else [])
               @ (if dict_get ie ''Hash'' \<noteq> dict_get bundle ''Challenge_Hash''
                  then [Index_Entry_Hash_mismatch (dict_get ie ''Hash'')
                          (dict_get bundle ''Challenge_Hash'')] else [])))
   \<and> (verify_challenge_bundle hashlib_new bundle = Inr (ok, errs) \<longrightarrow> ok = (errs = []))"
proof (intro conjI impI)
  assume a: "is_dict (dict_get bundle ''Event'')
      \<and> is_str (dict_get bundle ''Event_Hash'') \<and> truthy (dict_get bundle ''Event_Hash'')
      \<and> hash_event hashlib_new (dict_get bundle ''Event'') ''sha256'' = Inr computed_hash
      \<and> dict_get bundle ''Index_Entry'' = PDict ie"
  then show "verify_event_bundle hashlib_new bundle
        = Inr (PStr computed_hash = dict_get bundle ''Event_Hash''
                 \<and> dict_get ie ''Hash'' = dict_get bundle ''Event_Hash'',
               (if PStr computed_hash \<noteq> dict_get bundle ''Event_Hash''
                then [Record_hash_mismatch (dict_get bundle ''Event_Hash'') computed_hash] else [])
               @ (if dict_get ie ''Hash'' \<noteq> dict_get bundle ''Event_Hash''
                  then [Index_Entry_Hash_mismatch (dict_get ie ''Hash'')
                          (dict_get bundle ''Event_Hash'')] else []))"
    by (auto simp: verify_event_bundle_def Let_def)
next
  assume "verify_event_bundle hashlib_new bundle = Inr (ok, errs)"
  then show "ok = (errs = [])" by (rule verify_event_bundle_ok_iff)
next
  assume a: "is_dict (dict_get bundle ''Challenge'')
      \<and> is_str (dict_get bundle ''Challenge_Hash'') \<and> truthy (dict_get bundle ''Challenge_Hash'')
      \<and> hash_challenge hashlib_new (dict_get bundle ''Challenge'') ''sha256'' = Inr computed_hash
      \<and> dict_get bundle ''Index_Entry'' = PDict ie"
  then show "verify_challenge_bundle hashlib_new bundle
        = Inr (PStr computed_hash = dict_get bundle ''Challenge_Hash''
                 \<and> dict_get ie ''Hash'' = dict_get bundle ''Challenge_Hash'',
               (if PStr computed_hash \<noteq> dict_get bundle ''Challenge_Hash''
                then [Record_hash_mismatch (dict_get bundle ''Challenge_Hash'') computed_hash] else [])
               @ (if dict_get ie ''Hash'' \<noteq> dict_get bundle ''Challenge_Hash''
                  then [Index_Entry_Hash_mismatch (dict_get ie ''Hash'')
                          (dict_get bundle ''Challenge_Hash'')] else []))"
    by (auto simp: verify_challenge_bundle_def Let_def)
next
  assume "verify_challenge_bundle hashlib_new bundle = Inr (ok, errs)"
  then show "ok = (errs = [])" by (rule verify_challenge_bundle_ok_iff)
qed

theorem bundle_steps_independent_witness:
  "hash_event (\<lambda>algorithm. Some (\<lambda>data. Inr ''00ff'')) (PDict [(''Event_ID'', PStr ''E1'')]) ''sha256''
       = Inr ''00ff''
   \<and> verify_event_bundle (\<lambda>algorithm. Some (\<lambda>data. Inr ''00ff''))
        [(''Bundle_Type'', PStr ''PLRS_Event_Evidence_Bundle''),
         (''Event'', PDict [(''Event_ID'', PStr ''E1'')]),
         (''Event_Hash'', PStr ''aa11''),
         (''Index_Entry'', PDict [(''Index_Seq'', PInt 1), (''Hash'', PStr ''bb22'')])]
       = Inr (False, [Record_hash_mismatch (PStr ''aa11'') ''00ff'',
                      Index_Entry_Hash_mismatch (PStr ''bb22'') (PStr ''aa11'')])
   \<and> hash_challenge (\<lambda>algorithm. Some (\<lambda>data. Inr ''00ff''))
        (PDict [(''Challenge_ID'', PStr ''C1'')]) ''sha256'' = Inr ''00ff''
   \<and> verify_challenge_bundle (\<lambda>algorithm. Some (\<lambda>data. Inr ''00ff''))
        [(''Bundle_Type'', PStr ''PLRS_Challenge_Evidence_Bundle''),
         (''Challenge'', PDict [(''Challenge_ID'', PStr ''C1'')]),
         (''Challenge_Hash'', PStr ''00ff''),
         (''Index_Entry'', PDict [(''Index_Seq'', PInt 1), (''Hash'', PStr ''00ff'')])]
       = Inr (True, [])"
proof -
  let ?H = "\<lambda>algorithm :: string. Some (\<lambda>data :: bytes. Inr ''00ff'' :: error + string)"
  let ?b = "[(''Bundle_Type'', PStr ''PLRS_Event_Evidence_Bundle''),
             (''Event'', PDict [(''Event_ID'', PStr ''E1'')]),
             (''Event_Hash'', PStr ''aa11''),
             (''Index_Entry'', PDict [(''Index_Seq'', PInt 1), (''Hash'', PStr ''bb22'')])]"
  let ?c = "[(''Bundle_Type'', PStr ''PLRS_Challenge_Evidence_Bundle''),
             (''Challenge'', PDict [(''Challenge_ID'', PStr ''C1'')]),
             (''Challenge_Hash'', PStr ''00ff''),
             (''Index_Entry'', PDict [(''Index_Seq'', PInt 1), (''Hash'', PStr ''00ff'')])]"
  have h: "hash_event ?H (PDict [(''Event_ID'', PStr ''E1'')]) ''sha256'' = Inr ''00ff''"
    by (simp add: hash_event_def event_serialize_def encode_utf8_def encode_basestring_def
          escape_char_def)
  have h': "hash_challenge ?H (PDict [(''Challenge_ID'', PStr ''C1'')]) ''sha256'' = Inr ''00ff''"
    by (simp add: hash_challenge_def challenge_serialize_def encode_utf8_def encode_basestring_def
          escape_char_def)
  have g: "dict_get ?b ''Event'' = PDict [(''Event_ID'', PStr ''E1'')]"
    "dict_get ?b ''Event_Hash'' = PStr ''aa11''"
    "dict_get ?b ''Index_Entry'' = PDict [(''Index_Seq'', PInt 1), (''Hash'', PStr ''bb22'')]"
    "dict_get [(''Index_Seq'', PInt 1), (''Hash'', PStr ''bb22'')] ''Hash'' = PStr ''bb22''"
    by (simp_all add: dict_get_def)
  have g': "dict_get ?c ''Challenge'' = PDict [(''Challenge_ID'', PStr ''C1'')]"
    "dict_get ?c ''Challenge_Hash'' = PStr ''00ff''"
    "dict_get ?c ''Index_Entry'' = PDict [(''Index_Seq'', PInt 1), (''Hash'', PStr ''00ff'')]"
    "dict_get [(''Index_Seq'', PInt 1), (''Hash'', PStr ''00ff'')] ''Hash'' = PStr ''00ff''"
    by (simp_all add: dict_get_def)
  from bundle_steps_independent
         [of ?b ?H "''00ff''" "[(''Index_Seq'', PInt 1), (''Hash'', PStr ''bb22'')]", THEN conjunct1]
  have e: "verify_event_bundle ?H ?b
       = Inr (False, [Record_hash_mismatch (PStr ''aa11'') ''00ff'',
                      Index_Entry_Hash_mismatch (PStr ''bb22'') (PStr ''aa11'')])"
    using h g by simp
  from bundle_steps_independent
         [of ?c ?H "''00ff''" "[(''Index_Seq'', PInt 1), (''Hash'', PStr ''00ff'')]",
          THEN conjunct2, THEN conjunct2, THEN conjunct1]
  have c: "verify_challenge_bundle ?H ?c = Inr (True, [])"
    using h' g' by simp
  from h e h' c show ?thesis by (intro conjI)
qed

text \<open>
  Claim C5 as stated fails on a bundle that passes the structural check and whose record
  cannot be encoded (here a string holding the lone surrogate \<^verbatim>\<open>\ud800\<close>, as \<^verbatim>\<open>json.load\<close>
  reads it from a bundle file): \<^verbatim>\<open>verify_event_bundle\<close> returns at
  "Failed to compute Event hash", and the mismatch between \<^verbatim>\<open>Index_Entry.Hash\<close> and
  \<^verbatim>\<open>Event_Hash\<close> is not reported.
\<close>

theorem bundle_hash_failure_counterexample:
  "\<forall>hashlib_new. verify_event_bundle hashlib_new
     [(''Bundle_Type'', PStr ''PLRS_Event_Evidence_Bundle''),
      (''Event'', PDict [(''Event_ID'', PStr ''E1''),
                         (''Narrative_Statement'', PStr [CHR 0xED, CHR 0xA0, CHR 0x80])]),
      (''Event_Hash'', PStr ''aa11''),
      (''Index_Entry'', PDict [(''Index_Seq'', PInt 1), (''Hash'', PStr ''bb22'')])]
   = Inr (False, [Failed_to_compute UnicodeEncodeError])"
  by (simp add: verify_event_bundle_def hash_event_def event_serialize_def encode_utf8_def
        encode_basestring_def escape_char_def dict_get_def Let_def)

section \<open>Properties of the chain of custody\<close>

subsection \<open>Ordering\<close>

lemma good_entry_step_first:
  "good_entry entry \<Longrightarrow>
     coc_entry_step list_le i entry (ok, errs, PNone) = Inr (ok, errs, PStr (entry_ts entry))"
  by (cases entry)
     (auto simp: good_entry_def entry_ts_def coc_entry_step_def is_valid_utc_z_def Let_def
           split: pyval.splits)

lemma good_entry_step_next:
  "good_entry entry \<Longrightarrow>
     coc_entry_step list_le i entry (ok, errs, PStr t)
       = Inr (if entry_ts entry \<le> t then (False, errs @ [Not_strictly_later i], PStr (entry_ts entry))
              else (ok, errs, PStr (entry_ts entry)))"
  by (cases entry)
     (auto simp: good_entry_def entry_ts_def coc_entry_step_def is_valid_utc_z_def Let_def
           split: pyval.splits)

lemma coc_loop_increasing:
  "\<lbrakk>\<forall>e \<in> set entries. good_entry e; sorted_wrt (<) (map entry_ts entries);
    lst = PNone \<or> (\<exists>t. lst = PStr t \<and> (\<forall>e \<in> set entries. t < entry_ts e))\<rbrakk>
   \<Longrightarrow> coc_loop list_le i entries (ok, errs, lst)
       = Inr (ok, errs, if entries = [] then lst else PStr (entry_ts (last entries)))"
proof (induction entries arbitrary: i lst)
  case Nil
  show ?case by simp
next
  case (Cons x xs)
  from Cons.prems have gx: "good_entry x" and gxs: "\<forall>e \<in> set xs. good_entry e"
    and sx: "\<forall>e \<in> set xs. entry_ts x < entry_ts e" and sxs: "sorted_wrt (<) (map entry_ts xs)"
    by auto
  have step: "coc_entry_step list_le i x (ok, errs, lst) = Inr (ok, errs, PStr (entry_ts x))"
  proof (cases "lst = PNone")
    case True
    then show ?thesis using gx by (simp add: good_entry_step_first)
  next
    case False
    with Cons.prems(3) obtain t where "lst = PStr t" "t < entry_ts x" by auto
    then show ?thesis using gx by (simp add: good_entry_step_next not_le)
  qed
  have "coc_loop list_le (Suc i) xs (ok, errs, PStr (entry_ts x))
      = Inr (ok, errs, if xs = [] then PStr (entry_ts x) else PStr (entry_ts (last xs)))"
    using gxs sxs sx by (intro Cons.IH) auto
  then show ?case using step by simp
qed

lemma coc_loop_append:
  "coc_loop list_le i (xs @ ys) st
     = (case coc_loop list_le i xs st of
          Inl exc \<Rightarrow> Inl exc
        | Inr st' \<Rightarrow> coc_loop list_le (i + length xs) ys st')"
  by (induction xs arbitrary: i st) (auto split: sum.splits)

lemma verify_coc_increasing:
  assumes "is_str (dict_get coc ''Event_ID'')" "truthy (dict_get coc ''Event_ID'')"
    and "is_str (dict_get coc ''Event_Hash'')" "truthy (dict_get coc ''Event_Hash'')"
    and "dict_get coc ''Chain_Of_Custody'' = PList entries"
    and "\<forall>e \<in> set entries. good_entry e"
    and "sorted_wrt (<) (map entry_ts entries)"
  shows "verify_chain_of_custody list_le coc = Inr (True, [])"
proof -
  have "coc_loop list_le 1 entries (True, [], PNone)
      = Inr (True, [], if entries = [] then PNone else PStr (entry_ts (last entries)))"
    using assms(6,7) by (intro coc_loop_increasing) auto
  then show ?thesis using assms(1-5) by (simp add: verify_chain_of_custody_def Let_def)
qed

lemma verify_coc_one_out_of_order:
  assumes "is_str (dict_get coc ''Event_ID'')" "truthy (dict_get coc ''Event_ID'')"
    and "is_str (dict_get coc ''Event_Hash'')" "truthy (dict_get coc ''Event_Hash'')"
    and "dict_get coc ''Chain_Of_Custody'' = PList (pre @ bad # post)"
    and "\<forall>e \<in> set (pre @ bad # post). good_entry e"
    and "pre \<noteq> []"
    and "sorted_wrt (<) (map entry_ts pre)"
    and "entry_ts bad \<le> entry_ts (last pre)"
    and "sorted_wrt (<) (map entry_ts (bad # post))"
  shows "verify_chain_of_custody list_le coc
     = Inr (False, [Not_strictly_later (Suc (length pre))])"
proof -
  have p: "coc_loop list_le 1 pre (True, [], PNone) = Inr (True, [], PStr (entry_ts (last pre)))"
    using coc_loop_increasing [of pre PNone list_le 1 True "[]"] assms(6,7,8) by auto
  have b: "coc_entry_step list_le (Suc (length pre)) bad (True, [], PStr (entry_ts (last pre)))
      = Inr (False, [Not_strictly_later (Suc (length pre))], PStr (entry_ts bad))"
    using assms(6,9) by (simp add: good_entry_step_next)
  have q: "coc_loop list_le (Suc (Suc (length pre))) post
             (False, [Not_strictly_later (Suc (length pre))], PStr (entry_ts bad))
      = Inr (False, [Not_strictly_later (Suc (length pre))],
             if post = [] then PStr (entry_ts bad) else PStr (entry_ts (last post)))"
    using assms(6,10) by (intro coc_loop_increasing) auto
  have "coc_loop list_le 1 (pre @ bad # post) (True, [], PNone)
      = Inr (False, [Not_strictly_later (Suc (length pre))],
             if post = [] then PStr (entry_ts bad) else PStr (entry_ts (last post)))"
    using p b q by (simp add: coc_loop_append)
  then show ?thesis using assms(1-5) by (simp add: verify_chain_of_custody_def Let_def)
qed

text \<open>
  Claim C6. In a log with \<^verbatim>\<open>Event_ID\<close> and \<^verbatim>\<open>Event_Hash\<close> present, whose entries are
  well-formed: if the timestamps are strictly increasing in list order, verification returns
  \<open>ok\<close> with no finding; if one entry \<open>bad\<close> is not later than its predecessor, while the
  entries before it are increasing and the entries from \<open>bad\<close> on are increasing, there is
  exactly one finding, the ordering violation at \<open>bad\<close>: the tracker has moved on to the
  timestamp of \<open>bad\<close>, and no later entry is flagged.
\<close>

theorem custody_ordering:
  assumes "is_str (dict_get coc ''Event_ID'')" "truthy (dict_get coc ''Event_ID'')"
    and "is_str (dict_get coc ''Event_Hash'')" "truthy (dict_get coc ''Event_Hash'')"
  shows "(dict_get coc ''Chain_Of_Custody'' = PList entries
          \<and> list_all good_entry entries
          \<and> sorted_wrt (<) (map entry_ts entries)
          \<longrightarrow> verify_chain_of_custody list_le coc = Inr (True, []))
       \<and> (dict_get coc ''Chain_Of_Custody'' = PList (pre @ bad # post)
          \<and> list_all good_entry (pre @ bad # post)
          \<and> pre \<noteq> []
          \<and> sorted_wrt (<) (map entry_ts pre)
          \<and> entry_ts bad \<le> entry_ts (last pre)
          \<and> sorted_wrt (<) (map entry_ts (bad # post))
          \<longrightarrow> verify_chain_of_custody list_le coc
                = Inr (False, [Not_strictly_later (Suc (length pre))]))"
  using assms verify_coc_increasing [of coc entries list_le]
    verify_coc_one_out_of_order [of coc pre bad post list_le]
  by (simp only: list_all_iff) blast

lemma good_custody_entry:
  "good_entry (custody_entry (t @ ''T18:42:10Z''))"
  by (simp add: good_entry_def custody_entry_def dict_get_def is_valid_utc_z_def)

lemma entry_ts_custody_entry: "entry_ts (custody_entry ts) = ts"
  by (simp add: entry_ts_def custody_entry_def dict_get_def)

theorem custody_ordering_witness:
  "(\<forall>list_le. verify_chain_of_custody list_le
      (custody_log [custody_entry ''2025-01-12T18:42:10Z'', custody_entry ''2025-01-13T18:42:10Z'',
                    custody_entry ''2025-01-14T18:42:10Z'']) = Inr (True, []))
   \<and> (\<forall>list_le. verify_chain_of_custody list_le
      (custody_log [custody_entry ''2025-01-13T18:42:10Z'', custody_entry ''2025-01-12T18:42:10Z'',
                    custody_entry ''2025-01-14T18:42:10Z'']) = Inr (False, [Not_strictly_later 2]))"
proof (intro conjI allI)
  fix list_le :: list_order
  let ?T1 = "''2025-01-12T18:42:10Z''" and ?T2 = "''2025-01-13T18:42:10Z''"
    and ?T3 = "''2025-01-14T18:42:10Z''"
  have g: "good_entry (custody_entry ?T1)" "good_entry (custody_entry ?T2)"
    "good_entry (custody_entry ?T3)"
    using good_custody_entry [of "''2025-01-12''"] good_custody_entry [of "''2025-01-13''"]
      good_custody_entry [of "''2025-01-14''"] by simp_all
  have lt: "?T1 < ?T2" "?T2 < ?T3" "?T1 < ?T3" by simp_all
  have hd: "is_str (dict_get (custody_log es) ''Event_ID'')"
    "truthy (dict_get (custody_log es) ''Event_ID'')"
    "is_str (dict_get (custody_log es) ''Event_Hash'')"
    "truthy (dict_get (custody_log es) ''Event_Hash'')"
    "dict_get (custody_log es) ''Chain_Of_Custody'' = PList es" for es
    by (simp_all add: custody_log_def dict_get_def)
  note t1 = custody_ordering [OF hd(1-4), THEN conjunct1, rule_format,
      of "[custody_entry ?T1, custody_entry ?T2, custody_entry ?T3]"
         "[custody_entry ?T1, custody_entry ?T2, custody_entry ?T3]" list_le]
  show "verify_chain_of_custody list_le
      (custody_log [custody_entry ?T1, custody_entry ?T2, custody_entry ?T3]) = Inr (True, [])"
    using g lt by (intro t1) (simp add: hd(5) entry_ts_custody_entry)
  note t2 = custody_ordering [OF hd(1-4), THEN conjunct2, rule_format,
      of "[custody_entry ?T2, custody_entry ?T1, custody_entry ?T3]"
         "[custody_entry ?T2]" "custody_entry ?T1" "[custody_entry ?T3]" list_le]
  have "verify_chain_of_custody list_le
      (custody_log [custody_entry ?T2, custody_entry ?T1, custody_entry ?T3])
      = Inr (False, [Not_strictly_later (Suc (length [custody_entry ?T2]))])"
    using g lt by (intro t2) (simp add: hd(5) entry_ts_custody_entry less_imp_le)
  then show "verify_chain_of_custody list_le
      (custody_log [custody_entry ?T2, custody_entry ?T1, custody_entry ?T3])
      = Inr (False, [Not_strictly_later 2])" by simp
qed

subsection \<open>Missing timestamps\<close>

text \<open>
  Claim C8 fails on the code. The second entry of the log below has no
  \<^verbatim>\<open>Entry_Timestamp_UTC\<close>: after the "invalid or non-UTC timestamp" line is written, the
  ordering check evaluates \<^verbatim>\<open>None <= "2025-01-12T18:42:10Z"\<close>, which raises \<^verbatim>\<open>TypeError\<close>.
  Verification does not return.
\<close>

theorem custody_missing_timestamp_raises:
  "verify_chain_of_custody list_le
     (custody_log [custody_entry ''2025-01-12T18:42:10Z'',
                   PDict [(''Holder_Name'', PStr ''Bob''), (''Holder_Role'', PStr ''Attorney''),
                          (''Action'', PStr ''Transferred'')]])
     = Inl TypeError"
  by (simp add: verify_chain_of_custody_def custody_log_def custody_entry_def dict_get_def
        coc_entry_step_def is_valid_utc_z_def Let_def)

text \<open>The same, whatever the order on lists is.\<close>

theorem custody_missing_timestamp_raises_witness:
  "\<forall>list_le. verify_chain_of_custody list_le
     (custody_log [custody_entry ''2025-01-12T18:42:10Z'',
                   PDict [(''Holder_Name'', PStr ''Bob''), (''Holder_Role'', PStr ''Attorney''),
                          (''Action'', PStr ''Transferred'')]])
     = Inl TypeError"
  by (intro allI) (rule custody_missing_timestamp_raises)

subsection \<open>Appending\<close>

text \<open>
  A log bound to another \<^verbatim>\<open>Event_ID\<close>, and a log bound to this \<^verbatim>\<open>Event_ID\<close> and to
  another hash, are left as they were.
\<close>

lemma append_event_id_mismatch_leaves_log:
  "dict_get coc ''Event_ID'' \<noteq> PNone \<Longrightarrow> dict_get coc ''Event_ID'' \<noteq> PStr event_id \<Longrightarrow>
     append_coc_entry now_utc coc event_id event_hash bundle_file holder_name holder_role action
       location notes = (Some RecordIdentityMismatch, coc)"
  by (simp add: append_coc_entry_def bind_or_check_def)

lemma append_event_hash_mismatch_leaves_bound_log:
  "dict_get coc ''Event_ID'' = PStr event_id \<Longrightarrow>
   dict_get coc ''Event_Hash'' \<noteq> PNone \<Longrightarrow> dict_get coc ''Event_Hash'' \<noteq> PStr event_hash \<Longrightarrow>
     append_coc_entry now_utc coc event_id event_hash bundle_file holder_name holder_role action
       location notes = (Some HashIdentityMismatch, coc)"
  by (simp add: append_coc_entry_def bind_or_check_def)

text \<open>
  Claim C7 fails on the code. The log below has no \<^verbatim>\<open>Event_ID\<close> and is bound to the hash
  \<^verbatim>\<open>ab12\<close>; appending for \<^verbatim>\<open>E1\<close> with the hash \<^verbatim>\<open>cd34\<close> raises the hash mismatch, and
  leaves \<^verbatim>\<open>Event_ID\<close> newly bound to \<^verbatim>\<open>E1\<close>.
\<close>

theorem append_binds_event_id_before_hash_check:
  "append_coc_entry ''2025-01-15T08:00:00Z''
     [(''CoC_Version'', PStr ''1.0''), (''Event_ID'', PNone), (''Event_Hash'', PStr ''ab12''),
      (''Evidence_Bundle_File'', PNone), (''Chain_Of_Custody'', PList [])]
     ''E1'' ''cd34'' ''bundle.json'' ''Ann'' ''Clerk'' ''Created'' [] []
   = (Some HashIdentityMismatch,
      [(''CoC_Version'', PStr ''1.0''), (''Event_ID'', PStr ''E1''), (''Event_Hash'', PStr ''ab12''),
       (''Evidence_Bundle_File'', PNone), (''Chain_Of_Custody'', PList [])])"
  by (simp add: append_coc_entry_def bind_or_check_def dict_get_def)

end
